theory Spec2Isabelle
  imports Complex_Main "HOL-Library.Multiset"
begin

section \<open>Values and exceptions of the Python program\<close>

text \<open>
  The store finder of \<^verbatim>\<open>map_agent_auto.py\<close> is embedded function by function.
  Python floats are idealised as real numbers (no NaN, no infinity, exact arithmetic);
  Python exceptions are values of the type \<open>exn\<close>, and a computation that may raise
  returns \<open>exn + 'a\<close> with \<open>Inl\<close> for the exception.

  The libraries the file calls are not part of the repository; they are parameters of
  the model:
  \<^item> \<open>ask_db\<close>: \<^verbatim>\<open>sql_agent.ask_db\<close>, from the question to the agent's answer or an exception;
  \<^item> \<open>geodesic\<close>: \<^verbatim>\<open>geopy.distance.geodesic(p, q).kilometers\<close>;
  \<^item> \<open>requests_get\<close>: \<^verbatim>\<open>requests.get\<close>, which may depend on the requests sent before;
  \<^item> \<open>polyline_decode\<close>: \<^verbatim>\<open>polyline.decode\<close>;
  \<^item> \<open>folium_polyline\<close>: the constructor \<^verbatim>\<open>folium.PolyLine\<close>, which may reject a path;
  \<^item> \<open>fmt\<close>: the text an f-string writes for a float.

  In the ranking a distance is an exact real. In the routing client the numbers of the
  response are divided and rounded as binary64 floats: \<open>to_double\<close> rounds a real to
  the nearest float, and a float may be infinite or not a number.
\<close>

datatype exn =
    ValueError | TypeError | KeyError | IndexError
  | OverflowError | RequestException | Timeout | JSONDecodeError | AgentError

type_synonym 'a result = "exn + 'a"

type_synonym coordinate = "real \<times> real"

text \<open>A Python float: a finite value, an infinity or a NaN.\<close>

datatype py_float = FVal real | FInf | FNegInf | FNaN

text \<open>The values \<^verbatim>\<open>response.json()\<close> can return. A \<open>PDict\<close> lists the items of the
  dictionary; a key is looked up with \<open>map_of\<close>.\<close>

datatype py_value =
    PNone
  | PBool bool
  | PInt int
  | PFloat py_float
  | PStr string
  | PList "py_value list"
  | PDict "(string \<times> py_value) list"

subsection \<open>Built-in operations\<close>

text \<open>\<^verbatim>\<open>round(x, 2)\<close>: to the nearest multiple of 1/100, a tie going to the even one.\<close>

definition round_half_even :: "real \<Rightarrow> int" where
  "round_half_even x =
     (let f = \<lfloor>x\<rfloor>; d = x - of_int f
      in if d < 1 / 2 then f
         else if 1 / 2 < d then f + 1
         else if even f then f else f + 1)"

definition py_round2 :: "real \<Rightarrow> real" where
  "py_round2 x = of_int (round_half_even (x * 100)) / 100"

text \<open>Rounding a real to binary64, to nearest and ties to even: the spacing of the floats
  around \<open>x\<close> is \<open>ulp x\<close>, with 53 significant bits and the least exponent -1022.\<close>

definition pow2 :: "int \<Rightarrow> real" where
  "pow2 e = (if 0 \<le> e then 2 ^ nat e else 1 / 2 ^ nat (- e))"

definition ulp :: "real \<Rightarrow> real" where
  "ulp x = pow2 (max \<lfloor>log 2 \<bar>x\<bar>\<rfloor> (- 1022) - 52)"

definition to_double :: "real \<Rightarrow> real" where
  "to_double x = of_int (round_half_even (x / ulp x)) * ulp x"

text \<open>\<^verbatim>\<open>a / b\<close> of two ints: the exact quotient rounded once, an OverflowError when it
  is too large for a float. \<^verbatim>\<open>x / b\<close> of a float and an int: the float division.\<close>

definition int_truediv :: "int \<Rightarrow> int \<Rightarrow> py_float result" where
  "int_truediv a b =
     (let q = to_double (of_int a / of_int b)
      in if 2 ^ 1024 \<le> \<bar>q\<bar> then Inl OverflowError else Inr (FVal q))"

fun float_truediv :: "py_float \<Rightarrow> int \<Rightarrow> py_float" where
  "float_truediv (FVal x) b = FVal (to_double (x / of_int b))"
| "float_truediv FInf b = (if 0 < b then FInf else FNegInf)"
| "float_truediv FNegInf b = (if 0 < b then FNegInf else FInf)"
| "float_truediv FNaN b = FNaN"

text \<open>\<^verbatim>\<open>int(x)\<close> of a float: truncation towards zero; an infinity is an OverflowError,
  a NaN a ValueError.\<close>

fun py_int :: "py_float \<Rightarrow> int result" where
  "py_int (FVal x) = Inr (if 0 \<le> x then \<lfloor>x\<rfloor> else \<lceil>x\<rceil>)"
| "py_int FNaN = Inl ValueError"
| "py_int f = Inl OverflowError"

text \<open>\<^verbatim>\<open>round(x, 2)\<close> of a float: the float nearest to the two-decimal rounding of its
  exact value; an infinity or a NaN is returned as it is.\<close>

fun float_round2 :: "py_float \<Rightarrow> py_float" where
  "float_round2 (FVal x) = FVal (to_double (py_round2 x))"
| "float_round2 f = f"

text \<open>\<^verbatim>\<open>xs[:k]\<close>: the first \<open>k\<close> items, and for a negative \<open>k\<close> all but the last \<open>-k\<close>.\<close>

definition py_slice_to :: "'a list \<Rightarrow> int \<Rightarrow> 'a list" where
  "py_slice_to xs k =
     (if 0 \<le> k then take (nat k) xs else take (length xs - nat (- k)) xs)"

section \<open>The store catalog\<close>

record store =
  store_id :: int
  store_name :: string
  address :: string
  latitude :: real
  longitude :: real
  phone_number :: string

text \<open>A store after \<^verbatim>\<open>store['distance_km'] = ...\<close>.\<close>

record ranked_store = store +
  distance_km :: real

definition sample_stores :: "store list" where
  "sample_stores =
     [\<lparr>store_id = 1,
       store_name = ''MedPlus Regency Orion Baner Street'',
       address = ''Shop No.15 Ground, Regency Orion, Soc, Mohan Nagar Co-Op Society, Baner, Pune'',
       latitude = 18.5516660,
       longitude = 73.7688460,
       phone_number = ''9226011653''\<rparr>,
      \<lparr>store_id = 2,
       store_name = ''MedPlus Baner Rd Baner'',
       address = ''Milkat No.O/A/01, Green Hills Apartment, Shop No.2, Baner Rd, opp. Pantaloons'',
       latitude = 18.5580910,
       longitude = 73.7934390,
       phone_number = ''4067006700''\<rparr>]"

definition stores_question :: string where
  "stores_question = ''Get all medical stores with their store_id, store_name, address, latitude, longitude, and phone_number in a structured format''"

text \<open>\<^verbatim>\<open>get_stores_with_location\<close>: the agent is asked, its answer is bound to
  \<^verbatim>\<open>response\<close> and never read; an exception of the agent propagates.\<close>

definition get_stores_with_location :: "(string \<Rightarrow> string result) \<Rightarrow> store list result" where
  "get_stores_with_location ask_db =
     (case ask_db stores_question of
        Inl e \<Rightarrow> Inl e
      | Inr response \<Rightarrow> Inr sample_stores)"

section \<open>Distance and ranking\<close>

definition calculate_distance ::
  "(coordinate \<Rightarrow> coordinate \<Rightarrow> real result) \<Rightarrow> real \<Rightarrow> real \<Rightarrow> real \<Rightarrow> real \<Rightarrow> real result" where
  "calculate_distance geodesic lat1 lon1 lat2 lon2 = geodesic (lat1, lon1) (lat2, lon2)"

text \<open>The loop of \<^verbatim>\<open>find_nearest_stores\<close> (lines 83 to 85): each store gets its rounded
  distance; the first exception of the distance computation ends the loop and the call.\<close>

fun add_distances ::
  "(coordinate \<Rightarrow> coordinate \<Rightarrow> real result) \<Rightarrow> real \<Rightarrow> real \<Rightarrow> store list \<Rightarrow> ranked_store list result" where
  "add_distances geodesic user_lat user_lon [] = Inr []"
| "add_distances geodesic user_lat user_lon (s # ss) =
     (case calculate_distance geodesic user_lat user_lon (latitude s) (longitude s) of
        Inl e \<Rightarrow> Inl e
      | Inr distance \<Rightarrow>
          (case add_distances geodesic user_lat user_lon ss of
             Inl e \<Rightarrow> Inl e
           | Inr rs \<Rightarrow> Inr (store.extend s \<lparr>distance_km = py_round2 distance\<rparr> # rs)))"

text \<open>The body of \<^verbatim>\<open>find_nearest_stores\<close> on a given list of stores (lines 83 to 89):
  the loop, \<^verbatim>\<open>stores.sort(key=...)\<close> (a stable sort on the key alone) and the slice.\<close>

definition rank_stores ::
  "(coordinate \<Rightarrow> coordinate \<Rightarrow> real result) \<Rightarrow> real \<Rightarrow> real \<Rightarrow> store list \<Rightarrow> int \<Rightarrow> ranked_store list result" where
  "rank_stores geodesic user_lat user_lon stores limit =
     (case add_distances geodesic user_lat user_lon stores of
        Inl e \<Rightarrow> Inl e
      | Inr rs \<Rightarrow> Inr (py_slice_to (sort_key distance_km rs) limit))"

text \<open>\<^verbatim>\<open>find_nearest_stores(user_lat, user_lon, limit=5)\<close>; \<open>None\<close> is the omitted argument.\<close>

definition find_nearest_stores ::
  "(string \<Rightarrow> string result) \<Rightarrow> (coordinate \<Rightarrow> coordinate \<Rightarrow> real result) \<Rightarrow>
   real \<Rightarrow> real \<Rightarrow> int option \<Rightarrow> ranked_store list result" where
  "find_nearest_stores ask_db geodesic user_lat user_lon limit =
     (case get_stores_with_location ask_db of
        Inl e \<Rightarrow> Inl e
      | Inr stores \<Rightarrow>
          rank_stores geodesic user_lat user_lon stores
            (case limit of None \<Rightarrow> 5 | Some k \<Rightarrow> k))"


section \<open>The routing client\<close>

subsection \<open>Operations on the decoded response\<close>

definition py_bind :: "'a result \<Rightarrow> ('a \<Rightarrow> 'b result) \<Rightarrow> 'b result" where
  "py_bind r f = (case r of Inl e \<Rightarrow> Inl e | Inr x \<Rightarrow> f x)"

fun is_substring :: "string \<Rightarrow> string \<Rightarrow> bool" where
  "is_substring p [] = (p = [])"
| "is_substring p (c # cs) = (take (length p) (c # cs) = p \<or> is_substring p cs)"

text \<open>\<^verbatim>\<open>key in x\<close> for a string \<open>key\<close>: a key of a dictionary, an item of a list, a part
  of a string; any other value is not iterable.\<close>

fun py_contains :: "string \<Rightarrow> py_value \<Rightarrow> bool result" where
  "py_contains k (PDict kvs) = Inr (map_of kvs k \<noteq> None)"
| "py_contains k (PList xs) = Inr (PStr k \<in> set xs)"
| "py_contains k (PStr s) = Inr (is_substring k s)"
| "py_contains k v = Inl TypeError"

text \<open>\<^verbatim>\<open>x[key]\<close> for a string \<open>key\<close>.\<close>

fun py_getitem :: "py_value \<Rightarrow> string \<Rightarrow> py_value result" where
  "py_getitem (PDict kvs) k = (case map_of kvs k of None \<Rightarrow> Inl KeyError | Some v \<Rightarrow> Inr v)"
| "py_getitem v k = Inl TypeError"

fun py_len :: "py_value \<Rightarrow> nat result" where
  "py_len (PStr s) = Inr (length s)"
| "py_len (PList xs) = Inr (length xs)"
| "py_len (PDict kvs) = Inr (length (remdups (map fst kvs)))"
| "py_len v = Inl TypeError"

text \<open>\<^verbatim>\<open>x[0]\<close>; the keys of a decoded JSON object are strings, so \<open>0\<close> is never one.\<close>

fun py_first :: "py_value \<Rightarrow> py_value result" where
  "py_first (PList []) = Inl IndexError"
| "py_first (PList (x # xs)) = Inr x"
| "py_first (PStr []) = Inl IndexError"
| "py_first (PStr (c # cs)) = Inr (PStr [c])"
| "py_first (PDict kvs) = Inl KeyError"
| "py_first v = Inl TypeError"

text \<open>\<^verbatim>\<open>v / b\<close> for a positive int constant \<open>b\<close>: a bool counts as the int 0 or 1; a value
  that is no number is a TypeError.\<close>

fun py_truediv :: "py_value \<Rightarrow> int \<Rightarrow> py_float result" where
  "py_truediv (PBool b) c = int_truediv (if b then 1 else 0) c"
| "py_truediv (PInt i) c = int_truediv i c"
| "py_truediv (PFloat x) c = Inr (float_truediv x c)"
| "py_truediv v c = Inl TypeError"


subsection \<open>Requests and responses\<close>

record request =
  http_method :: string
  url :: string
  timeout :: nat

text \<open>A response, as far as the code reads it: what \<^verbatim>\<open>response.json()\<close> does.\<close>

datatype response = Response (json: "py_value result")

type_synonym network = "request list \<Rightarrow> request \<Rightarrow> response result"

text \<open>The dictionary \<^verbatim>\<open>get_route_info\<close> returns: with the three route entries and
  \<^verbatim>\<open>"success": True\<close>, or \<^verbatim>\<open>{"success": False}\<close> alone.\<close>

datatype route_info =
    Route (duration_minutes: int) (route_km: py_float) (route_points: "coordinate list")
  | NoRoute


definition osrm_url :: "(real \<Rightarrow> string) \<Rightarrow> string \<Rightarrow> real \<Rightarrow> real \<Rightarrow> real \<Rightarrow> real \<Rightarrow> string" where
  "osrm_url fmt mode user_lat user_lon store_lat store_lon =
     ''http://router.project-osrm.org/route/v1/'' @ mode @ ''/''
       @ fmt user_lon @ '','' @ fmt user_lat @ '';''
       @ fmt store_lon @ '','' @ fmt store_lat @ ''?overview=full''"

text \<open>Lines 56 to 72, on the decoded \<^verbatim>\<open>data\<close>: \<open>Inr (Some r)\<close> is \<^verbatim>\<open>return r\<close>,
  \<open>Inr None\<close> is a false condition of the \<^verbatim>\<open>if\<close>, \<open>Inl e\<close> an exception.\<close>

definition route_of_data ::
  "(py_value \<Rightarrow> coordinate list result) \<Rightarrow> py_value \<Rightarrow> route_info option result" where
  "route_of_data polyline_decode data =
     py_bind (py_contains ''routes'' data) (\<lambda>has_routes.
       if \<not> has_routes then Inr None
       else
         py_bind (py_getitem data ''routes'') (\<lambda>routes.
         py_bind (py_len routes) (\<lambda>n.
           if \<not> 0 < n then Inr None
           else
             py_bind (py_first routes) (\<lambda>route.
             py_bind (py_getitem route ''duration'') (\<lambda>duration_seconds.
             py_bind (py_getitem route ''distance'') (\<lambda>distance_meters.
             py_bind (py_getitem route ''geometry'') (\<lambda>geometry.
             py_bind (py_truediv duration_seconds 60) (\<lambda>minutes.
             py_bind (py_int minutes) (\<lambda>duration_minutes.
             py_bind (py_truediv distance_meters 1000) (\<lambda>km.
             py_bind (polyline_decode geometry) (\<lambda>points.
               Inr (Some (Route duration_minutes (float_round2 km) points)))))))))))))"

text \<open>The request of line 53: \<^verbatim>\<open>requests.get(osrm_url, timeout=10)\<close>.\<close>

definition route_request :: "(real \<Rightarrow> string) \<Rightarrow> string \<Rightarrow> real \<Rightarrow> real \<Rightarrow> real \<Rightarrow> real \<Rightarrow> request" where
  "route_request fmt mode user_lat user_lon store_lat store_lon =
     \<lparr>http_method = ''GET'',
      url = osrm_url fmt mode user_lat user_lon store_lat store_lon,
      timeout = 10\<rparr>"

text \<open>The body of the \<^verbatim>\<open>try\<close> (lines 52 to 72), with the requests sent so far.\<close>

definition route_try ::
  "network \<Rightarrow> (py_value \<Rightarrow> coordinate list result) \<Rightarrow> (real \<Rightarrow> string) \<Rightarrow> request list \<Rightarrow>
   real \<Rightarrow> real \<Rightarrow> real \<Rightarrow> real \<Rightarrow> string \<Rightarrow> route_info option result \<times> request list" where
  "route_try requests_get polyline_decode fmt sent user_lat user_lon store_lat store_lon mode =
     (let req = route_request fmt mode user_lat user_lon store_lat store_lon
      in (py_bind (requests_get sent req) (\<lambda>response.
          py_bind (json response) (route_of_data polyline_decode)),
          sent @ [req]))"

text \<open>\<^verbatim>\<open>get_route_info(user_lat, user_lon, store_lat, store_lon, mode="driving")\<close>:
  \<^verbatim>\<open>except: pass\<close> and a false \<^verbatim>\<open>if\<close> both reach the last line.\<close>

definition get_route_info ::
  "network \<Rightarrow> (py_value \<Rightarrow> coordinate list result) \<Rightarrow> (real \<Rightarrow> string) \<Rightarrow> request list \<Rightarrow>
   real \<Rightarrow> real \<Rightarrow> real \<Rightarrow> real \<Rightarrow> string option \<Rightarrow> route_info result \<times> request list" where
  "get_route_info requests_get polyline_decode fmt sent user_lat user_lon store_lat store_lon mode =
     (case route_try requests_get polyline_decode fmt sent user_lat user_lon store_lat store_lon
             (case mode of None \<Rightarrow> ''driving'' | Some m \<Rightarrow> m) of
        (Inr (Some r), sent') \<Rightarrow> (Inr r, sent')
      | (Inr None, sent') \<Rightarrow> (Inr NoRoute, sent')
      | (Inl e, sent') \<Rightarrow> (Inr NoRoute, sent'))"

section \<open>Route annotation\<close>

record marker =
  marker_store :: store
  marker_distance :: "real option"
  marker_route :: "(int \<times> py_float) option"
  marker_color :: string

datatype layer =
    UserMarker coordinate
  | PolyLine "coordinate list" string string
  | StoreMarker marker






fun markers_of :: "layer list \<Rightarrow> marker list" where
  "markers_of [] = []"
| "markers_of (StoreMarker m # ls) = m # markers_of ls"
| "markers_of (l # ls) = markers_of ls"

section \<open>The distance of the specification\<close>

text \<open>Modelled from the spec: the distance library behind \<^verbatim>\<open>calculate_distance\<close>
  (\<^verbatim>\<open>geopy.distance.geodesic\<close>) is not among the sources. The specification (4.1) asks for
  a standard great-circle distance formula on coordinates inside the ranges of its data
  model (3), and recommends rejecting the others: here the haversine formula on a sphere
  of mean radius 6371.009 km.\<close>

definition valid_coordinate :: "coordinate \<Rightarrow> bool" where
  "valid_coordinate p = (- 90 \<le> fst p \<and> fst p \<le> 90 \<and> - 180 \<le> snd p \<and> snd p \<le> 180)"

definition radians :: "real \<Rightarrow> real" where
  "radians x = x * pi / 180"

definition haversine_km :: "coordinate \<Rightarrow> coordinate \<Rightarrow> real" where
  "haversine_km a b =
     2 * 6371.009 *
       arcsin (sqrt ((sin ((radians (fst b) - radians (fst a)) / 2))\<^sup>2
                     + cos (radians (fst a)) * cos (radians (fst b))
                       * (sin ((radians (snd b) - radians (snd a)) / 2))\<^sup>2))"

definition great_circle :: "coordinate \<Rightarrow> coordinate \<Rightarrow> real result" where
  "great_circle a b =
     (if valid_coordinate a \<and> valid_coordinate b then Inr (haversine_km a b)
      else Inl ValueError)"

section \<open>Sample inputs\<close>

text \<open>Concrete libraries and inputs on which the statements below are evaluated.

  \<open>geopy_point\<close> is the argument check of geopy's \<^verbatim>\<open>Point\<close>, as the library documents
  it: a latitude outside [-90, 90] is a \<^verbatim>\<open>ValueError\<close>, a longitude outside [-180, 180]
  is wrapped into that range. \<open>grid_km\<close> stands in for the ellipsoidal distance itself.\<close>

definition geopy_point :: "coordinate \<Rightarrow> coordinate result" where
  "geopy_point p =
     (if 90 < \<bar>fst p\<bar> then Inl ValueError
      else Inr (fst p,
                if 180 < \<bar>snd p\<bar>
                then snd p + 180 - 360 * of_int \<lfloor>(snd p + 180) / 360\<rfloor> - 180
                else snd p))"

definition grid_km :: "coordinate \<Rightarrow> coordinate \<Rightarrow> real" where
  "grid_km a b = 111 * (\<bar>fst a - fst b\<bar> + \<bar>snd a - snd b\<bar>)"

definition sample_geodesic :: "coordinate \<Rightarrow> coordinate \<Rightarrow> real result" where
  "sample_geodesic p q =
     py_bind (geopy_point p) (\<lambda>a. py_bind (geopy_point q) (\<lambda>b. Inr (grid_km a b)))"

definition sample_agent :: "string \<Rightarrow> string result" where
  "sample_agent question = Inr ''[(1, 'MedPlus'), (2, 'MedPlus')]''"

definition store_at :: "int \<Rightarrow> real \<Rightarrow> real \<Rightarrow> store" where
  "store_at n lat lon =
     \<lparr>store_id = n, store_name = ''Store'', address = ''Baner, Pune'',
      latitude = lat, longitude = lon, phone_number = ''0000000000''\<rparr>"

definition ranked_at :: "int \<Rightarrow> real \<Rightarrow> real \<Rightarrow> real \<Rightarrow> ranked_store" where
  "ranked_at n lat lon km = store.extend (store_at n lat lon) \<lparr>distance_km = km\<rparr>"


definition sample_fmt :: "real \<Rightarrow> string" where
  "sample_fmt x =
     (if x = 18.5581 then ''18.5581''
      else if x = 73.7934 then ''73.7934''
      else if x = 18.551666 then ''18.551666''
      else if x = 73.768846 then ''73.768846''
      else ''0.0'')"

definition sample_decode :: "py_value \<Rightarrow> coordinate list result" where
  "sample_decode geometry =
     (case geometry of
        PStr s \<Rightarrow> if s = [] then Inr []
                 else if s = ''_p~iF~ps|U'' then Inr [(38.5, - 120.2)] else Inl ValueError
      | _ \<Rightarrow> Inl TypeError)"





definition synthetic_response :: py_value where
  "synthetic_response =
     PDict [(''routes'',
             PList [PDict [(''duration'', PInt 600),
                           (''distance'', PInt 5000),
                           (''geometry'', PStr ''_p~iF~ps|U'')]])]"

definition synthetic_network :: network where
  "synthetic_network sent req = Inr (Response (Inr synthetic_response))"

definition timeout_network :: network where
  "timeout_network sent req = Inl Timeout"

definition malformed_network :: network where
  "malformed_network sent req = Inr (Response (Inl JSONDecodeError))"

definition no_route_network :: network where
  "no_route_network sent req =
     Inr (Response (Inr (PDict [(''code'', PStr ''NoRoute''), (''routes'', PList [])])))"

section \<open>The loop over the stores\<close>

lemma add_distances_returns:
  "(\<forall>s\<in>set stores. \<exists>d. geodesic (user_lat, user_lon) (latitude s, longitude s) = Inr d)
   \<Longrightarrow> \<exists>rs. add_distances geodesic user_lat user_lon stores = Inr rs"
  by (induction stores) (auto simp: calculate_distance_def)

lemma add_distances_ids:
  "add_distances geodesic user_lat user_lon stores = Inr rs \<Longrightarrow> map store_id rs = map store_id stores"
  by (induction stores arbitrary: rs) (auto simp: store.extend_def split: sum.splits)

lemma add_distances_length:
  "add_distances geodesic user_lat user_lon stores = Inr rs \<Longrightarrow> length rs = length stores"
  by (induction stores arbitrary: rs) (auto split: sum.splits)

lemma add_distances_truncate:
  "add_distances geodesic user_lat user_lon stores = Inr rs \<Longrightarrow> map store.truncate rs = stores"
  by (induction stores arbitrary: rs)
     (auto simp: store.extend_def store.truncate_def split: sum.splits)

lemma add_distances_km:
  "add_distances geodesic user_lat user_lon stores = Inr rs \<Longrightarrow> r \<in> set rs \<Longrightarrow>
    \<exists>d. geodesic (user_lat, user_lon) (latitude r, longitude r) = Inr d \<and> distance_km r = py_round2 d"
  by (induction stores arbitrary: rs)
     (auto simp: store.extend_def calculate_distance_def split: sum.splits)

lemma add_distances_raises:
  "add_distances geodesic user_lat user_lon stores = Inl e \<Longrightarrow>
    \<exists>s\<in>set stores. geodesic (user_lat, user_lon) (latitude s, longitude s) = Inl e"
  by (induction stores) (auto simp: calculate_distance_def split: sum.splits)

lemma distinct_ids_sort:
  "distinct (map store_id (sort_key distance_km rs)) = distinct (map store_id rs)"
  by (simp add: distinct_map)

lemma sorted_slice: "sorted (map f xs) \<Longrightarrow> sorted (map f (py_slice_to xs k))"
  by (simp add: py_slice_to_def take_map[symmetric] sorted_wrt_take del: take_map)

lemma distinct_slice: "distinct (map f xs) \<Longrightarrow> distinct (map f (py_slice_to xs k))"
  by (simp add: py_slice_to_def take_map[symmetric] del: take_map)

lemma length_slice_pos: "1 \<le> k \<Longrightarrow> length (py_slice_to xs k) = min (nat k) (length xs)"
  by (simp add: py_slice_to_def min_def)

lemma rank_stores_raises_iff:
  "rank_stores geodesic user_lat user_lon stores limit = Inl e
     \<longleftrightarrow> add_distances geodesic user_lat user_lon stores = Inl e"
  by (simp add: rank_stores_def split: sum.splits)

lemma sample_ids: "map store_id sample_stores = [1, 2]"
  by (simp add: sample_stores_def)

lemma sample_geodesic_catalog:
  "\<forall>s\<in>set sample_stores. \<exists>d. sample_geodesic (18.5581, 73.7934) (latitude s, longitude s) = Inr d"
  by (simp add: sample_stores_def sample_geodesic_def geopy_point_def py_bind_def)


lemma sorted_take_drop:
  assumes "sorted (map f xs)" and "a \<in> set (take n xs)" and "b \<in> set (drop n xs)"
  shows "f a \<le> f b"
proof -
  have "sorted (map f (take n xs) @ map f (drop n xs))"
    using assms(1) by (simp flip: map_append)
  then show ?thesis using assms(2,3) by (auto simp: sorted_append)
qed

lemma slice_is_take: "0 \<le> k \<Longrightarrow> py_slice_to xs k = take (nat k) xs"
  by (simp add: py_slice_to_def)



lemma sample_ranking:
  "map_sum id (map (\<lambda>r. (store_id r, distance_km r)))
     (find_nearest_stores sample_agent sample_geodesic 18.5581 73.7934 (Some 5))
   = Inr [(2, 0.01), (1, 3.44)]"
  by (simp add: find_nearest_stores_def get_stores_with_location_def sample_agent_def
      rank_stores_def sample_stores_def calculate_distance_def sample_geodesic_def
      geopy_point_def grid_km_def py_bind_def py_round2_def round_half_even_def
      py_slice_to_def store.extend_def)




section \<open>Rounding to a float\<close>



















section \<open>Facts about the routing client\<close>

lemma get_route_info_eq:
  "\<exists>r. get_route_info requests_get polyline_decode fmt sent user_lat user_lon store_lat store_lon mode
        = (Inr r, sent @ [route_request fmt (case mode of None \<Rightarrow> ''driving'' | Some m \<Rightarrow> m)
                            user_lat user_lon store_lat store_lon])"
  by (simp add: get_route_info_def route_try_def Let_def split: sum.splits option.splits)





section \<open>Facts about the route annotation\<close>

lemma markers_of_append: "markers_of (xs @ ys) = markers_of xs @ markers_of ys"
  by (induction xs rule: markers_of.induct) auto










lemma case_fst_Inr:
  "fst (case p of (Inl e, s) \<Rightarrow> (Inl e, s) | (Inr layers, s) \<Rightarrow> (Inr (f layers), s)) = Inr ls
     \<Longrightarrow> \<exists>ls'. fst p = Inr ls'"
  by (auto split: prod.splits sum.splits)






section \<open>Facts about the great-circle distance\<close>

lemma haversine_sym: "haversine_km a b = haversine_km b a"
proof -
  have s: "\<And>x y :: real. (sin ((x - y) / 2))\<^sup>2 = (sin ((y - x) / 2))\<^sup>2"
  proof -
    fix x y :: real
    have "(y - x) / 2 = - ((x - y) / 2)" by argo
    then have "sin ((y - x) / 2) = - sin ((x - y) / 2)" by (simp only: sin_minus)
    then show "(sin ((x - y) / 2))\<^sup>2 = (sin ((y - x) / 2))\<^sup>2" by simp
  qed
  show ?thesis
    unfolding haversine_km_def
    by (simp only: s [of "radians (fst b)" "radians (fst a)"]
        s [of "radians (snd b)" "radians (snd a)"] mult.commute [of "cos (radians (fst a))"])
qed

lemma haversine_zero: "haversine_km a a = 0"
  by (simp add: haversine_km_def)

section \<open>Ranking\<close>

text \<open>
  Claim C1. For a limit of at least 1, a list of stores with unique ids and an origin from
  which the distance library returns a distance to every store, the ranking returns a list
  sorted non-decreasingly by \<open>distance_km\<close>, of length \<open>min limit |stores|\<close> and without a
  repeated \<open>store_id\<close>. Every store returned is a store of the input with the rounded
  distance the library gives for it, and no store left out is nearer than a store
  returned. For the empty list the result is the empty list, not an error, and
  \<^verbatim>\<open>find_nearest_stores\<close> is this ranking of the built-in catalog.
\<close>

theorem rank_sorted_bounded_distinct:
  assumes lim: "1 \<le> limit"
    and ids: "distinct (map store_id stores)"
    and geo: "\<forall>s\<in>set stores. \<exists>d. geodesic (user_lat, user_lon) (latitude s, longitude s) = Inr d"
  shows "(\<exists>rs. rank_stores geodesic user_lat user_lon stores limit = Inr rs
            \<and> sorted (map distance_km rs)
            \<and> length rs = min (nat limit) (length stores)
            \<and> distinct (map store_id rs)
            \<and> (\<forall>r\<in>set rs. store.truncate r \<in> set stores
                  \<and> (\<exists>d. geodesic (user_lat, user_lon) (latitude r, longitude r) = Inr d
                         \<and> distance_km r = py_round2 d))
            \<and> (\<forall>s\<in>set stores. store_id s \<notin> store_id ` set rs \<longrightarrow>
                  (\<exists>d. geodesic (user_lat, user_lon) (latitude s, longitude s) = Inr d
                       \<and> (\<forall>r\<in>set rs. distance_km r \<le> py_round2 d))))
       \<and> rank_stores geodesic user_lat user_lon [] limit = Inr []
       \<and> (\<forall>ask_db response. ask_db stores_question = Inr response \<and> stores = sample_stores \<longrightarrow>
            find_nearest_stores ask_db geodesic user_lat user_lon (Some limit)
              = rank_stores geodesic user_lat user_lon stores limit)"
proof -
  from geo add_distances_returns [where geodesic = geodesic and user_lat = user_lat
      and user_lon = user_lon and stores = stores]
  obtain ds where ds: "add_distances geodesic user_lat user_lon stores = Inr ds" by blast
  let ?sorted = "sort_key distance_km ds"
  let ?rs = "py_slice_to ?sorted limit"
  have k: "?rs = take (nat limit) ?sorted" using lim by (simp add: slice_is_take)
  have res: "rank_stores geodesic user_lat user_lon stores limit = Inr ?rs"
    by (simp add: rank_stores_def ds)
  have srt: "sorted (map distance_km ?sorted)" by (rule sorted_sort_key)
  then have s: "sorted (map distance_km ?rs)" by (rule sorted_slice)
  have l: "length ?rs = min (nat limit) (length stores)"
    using lim by (simp add: length_slice_pos add_distances_length [OF ds])
  have "distinct (map store_id ?sorted)"
    using ids by (simp add: distinct_ids_sort add_distances_ids [OF ds])
  then have d: "distinct (map store_id ?rs)" by (rule distinct_slice)
  have sub: "set ?rs \<subseteq> set ds" using set_take_subset [of "nat limit" ?sorted] by (simp add: k)
  have from_lib: "\<forall>r\<in>set ?rs. store.truncate r \<in> set stores
                  \<and> (\<exists>d. geodesic (user_lat, user_lon) (latitude r, longitude r) = Inr d
                         \<and> distance_km r = py_round2 d)"
  proof
    fix r assume "r \<in> set ?rs"
    then have r: "r \<in> set ds" using sub by blast
    then have "store.truncate r \<in> set (map store.truncate ds)" by simp
    then have "store.truncate r \<in> set stores" by (simp only: add_distances_truncate [OF ds])
    with add_distances_km [OF ds r]
    show "store.truncate r \<in> set stores
                  \<and> (\<exists>d. geodesic (user_lat, user_lon) (latitude r, longitude r) = Inr d
                         \<and> distance_km r = py_round2 d)" by simp
  qed
  have left_out: "\<forall>s\<in>set stores. store_id s \<notin> store_id ` set ?rs \<longrightarrow>
                  (\<exists>d. geodesic (user_lat, user_lon) (latitude s, longitude s) = Inr d
                       \<and> (\<forall>r\<in>set ?rs. distance_km r \<le> py_round2 d))"
  proof (intro ballI impI)
    fix s assume s: "s \<in> set stores" and out: "store_id s \<notin> store_id ` set ?rs"
    from s have "s \<in> set (map store.truncate ds)" by (simp only: add_distances_truncate [OF ds])
    then obtain r' where r': "r' \<in> set ds" "store.truncate r' = s" by auto
    then have same: "store_id r' = store_id s" "latitude r' = latitude s" "longitude r' = longitude s"
      by (auto simp: store.truncate_def)
    have "set ?sorted = set (take (nat limit) ?sorted) \<union> set (drop (nat limit) ?sorted)"
      by (metis append_take_drop_id set_append)
    with r'(1) have "r' \<in> set (take (nat limit) ?sorted) \<union> set (drop (nat limit) ?sorted)"
      by simp
    moreover have "r' \<notin> set (take (nat limit) ?sorted)"
      using out same(1) k by force
    ultimately have dr: "r' \<in> set (drop (nat limit) ?sorted)" by blast
    from add_distances_km [OF ds r'(1)] same obtain d where
      d: "geodesic (user_lat, user_lon) (latitude s, longitude s) = Inr d" "distance_km r' = py_round2 d"
      by auto
    have "\<forall>r\<in>set ?rs. distance_km r \<le> py_round2 d"
      using sorted_take_drop [OF srt _ dr] d(2) k by auto
    with d(1) show "\<exists>d. geodesic (user_lat, user_lon) (latitude s, longitude s) = Inr d
                       \<and> (\<forall>r\<in>set ?rs. distance_km r \<le> py_round2 d)" by blast
  qed
  have e: "rank_stores geodesic user_lat user_lon [] limit = Inr []"
    by (simp add: rank_stores_def py_slice_to_def)
  have f: "\<forall>ask_db response. ask_db stores_question = Inr response \<and> stores = sample_stores \<longrightarrow>
            find_nearest_stores ask_db geodesic user_lat user_lon (Some limit)
              = rank_stores geodesic user_lat user_lon stores limit"
    by (simp add: find_nearest_stores_def get_stores_with_location_def)
  from res s l d from_lib left_out e f show ?thesis by simp
qed

text \<open>Witness for C1: the built-in catalog ranked from (18.5581, 73.7934) with limit 5;
  the second store of the catalog is the nearer one and comes first.\<close>

theorem rank_sorted_bounded_distinct_witness:
  "(1::int) \<le> 5 \<and> distinct (map store_id sample_stores)
   \<and> map (\<lambda>s. sample_geodesic (18.5581, 73.7934) (latitude s, longitude s)) sample_stores
       = [Inr 3.439668, Inr 0.005328]
   \<and> (\<exists>rs. find_nearest_stores sample_agent sample_geodesic 18.5581 73.7934 (Some 5) = Inr rs
         \<and> map (\<lambda>r. (store_id r, distance_km r)) rs = [(2, 0.01), (1, 3.44)]
         \<and> sorted (map distance_km rs) \<and> length rs = 2 \<and> distinct (map store_id rs))"
proof -
  have a: "(1::int) \<le> 5" by simp
  have b: "distinct (map store_id sample_stores)" by (simp add: sample_ids)
  note c = sample_geodesic_catalog
  have d: "sample_agent stores_question = Inr ''[(1, 'MedPlus'), (2, 'MedPlus')]''"
    by (simp add: sample_agent_def)
  have e: "map (\<lambda>s. sample_geodesic (18.5581, 73.7934) (latitude s, longitude s)) sample_stores
       = [Inr 3.439668, Inr 0.005328]"
    by (simp add: sample_stores_def sample_geodesic_def geopy_point_def grid_km_def py_bind_def)
  from rank_sorted_bounded_distinct [where limit = 5 and stores = sample_stores
      and geodesic = sample_geodesic and user_lat = "18.5581" and user_lon = "73.7934", OF a b c] d
  obtain rs where rs: "find_nearest_stores sample_agent sample_geodesic 18.5581 73.7934 (Some 5) = Inr rs"
    "sorted (map distance_km rs)" "length rs = min (nat 5) (length sample_stores)"
    "distinct (map store_id rs)"
    by metis
  from rs(1) sample_ranking have "map (\<lambda>r. (store_id r, distance_km r)) rs = [(2, 0.01), (1, 3.44)]"
    by simp
  moreover have "min (nat 5) (length sample_stores) = 2" by (simp add: sample_stores_def)
  ultimately show ?thesis using a b e rs by simp
qed

text \<open>
  Counterexample to claim C3 as stated (a limit of 0 or less raises an error): with limit 0
  \<^verbatim>\<open>find_nearest_stores\<close> returns the empty list, and with limit -1 the nearest of the two
  catalog stores.
\<close>

theorem find_nearest_stores_limit_zero_counterexample:
  "find_nearest_stores sample_agent sample_geodesic 18.5581 73.7934 (Some 0) = Inr []
   \<and> map_sum id (map store_id)
        (find_nearest_stores sample_agent sample_geodesic 18.5581 73.7934 (Some (- 1))) = Inr [2]"
  by (simp add: find_nearest_stores_def get_stores_with_location_def sample_agent_def
      rank_stores_def sample_stores_def calculate_distance_def sample_geodesic_def
      geopy_point_def grid_km_def py_bind_def py_round2_def round_half_even_def
      py_slice_to_def store.extend_def)

text \<open>
  Claim C3, amended. A limit of 0 or less raises nothing: whenever the distances are
  computed, limit 0 gives the empty list and a negative limit gives the sorted list without
  its last \<open>-limit\<close> stores, as the slice \<^verbatim>\<open>stores[:limit]\<close> does.
\<close>

theorem rank_nonpositive_limit_slices:
  assumes "limit \<le> 0"
    and "add_distances geodesic user_lat user_lon stores = Inr ds"
  shows "rank_stores geodesic user_lat user_lon stores limit
           = Inr (if limit = 0 then []
                  else take (length stores - nat (- limit)) (sort_key distance_km ds))"
  using assms add_distances_length [OF assms(2)]
  by (auto simp: rank_stores_def py_slice_to_def)

text \<open>Witness for C3: two stores and limit -1.\<close>

theorem rank_nonpositive_limit_slices_witness:
  "(- 1 :: int) \<le> 0
   \<and> add_distances sample_geodesic 18 73 [store_at 1 18 75, store_at 2 18 74]
       = Inr [ranked_at 1 18 75 222, ranked_at 2 18 74 111]
   \<and> rank_stores sample_geodesic 18 73 [store_at 1 18 75, store_at 2 18 74] (- 1)
       = Inr [ranked_at 2 18 74 111]"
proof -
  have a: "(- 1 :: int) \<le> 0" by simp
  have b: "add_distances sample_geodesic 18 73 [store_at 1 18 75, store_at 2 18 74]
       = Inr [ranked_at 1 18 75 222, ranked_at 2 18 74 111]"
    by (simp add: calculate_distance_def sample_geodesic_def geopy_point_def grid_km_def
        py_bind_def py_round2_def round_half_even_def store_at_def ranked_at_def)
  from rank_nonpositive_limit_slices [OF a b] a b show ?thesis
    by (simp add: ranked_at_def store.extend_def)
qed



text \<open>
  Counterexample to claim C7 as stated (every out-of-range coordinate is rejected): for the
  longitude 433.7934 the distance is computed and the catalog is ranked.
\<close>

theorem out_of_range_longitude_counterexample:
  "calculate_distance sample_geodesic 18.5581 433.7934 18.551666 73.768846 = Inr 3.439668
   \<and> map_sum id (map (\<lambda>r. (store_id r, distance_km r)))
       (find_nearest_stores sample_agent sample_geodesic 18.5581 433.7934 (Some 5))
     = Inr [(2, 0.01), (1, 3.44)]"
  by (simp add: find_nearest_stores_def get_stores_with_location_def sample_agent_def
      rank_stores_def sample_stores_def calculate_distance_def sample_geodesic_def
      geopy_point_def grid_km_def py_bind_def py_round2_def round_half_even_def
      py_slice_to_def store.extend_def)

text \<open>
  Claim C7, amended. The distance computation and the ranking check no coordinate
  themselves: \<^verbatim>\<open>calculate_distance\<close> returns or raises exactly as the distance library
  does on the same coordinates, and the ranking raises exactly when the library raises for
  one of the stores, with an exception the library raised.
\<close>

theorem ranking_raises_only_with_the_library:
  "calculate_distance geodesic lat1 lon1 lat2 lon2 = geodesic (lat1, lon1) (lat2, lon2)
   \<and> ((\<exists>e. rank_stores geodesic user_lat user_lon stores limit = Inl e)
        \<longleftrightarrow> (\<exists>s\<in>set stores. \<exists>e. geodesic (user_lat, user_lon) (latitude s, longitude s) = Inl e))
   \<and> (\<forall>e. rank_stores geodesic user_lat user_lon stores limit = Inl e
        \<longrightarrow> (\<exists>s\<in>set stores. geodesic (user_lat, user_lon) (latitude s, longitude s) = Inl e))"
proof -
  have a: "\<forall>e. rank_stores geodesic user_lat user_lon stores limit = Inl e
        \<longrightarrow> (\<exists>s\<in>set stores. geodesic (user_lat, user_lon) (latitude s, longitude s) = Inl e)"
    by (simp add: rank_stores_raises_iff add_distances_raises)
  have b: "\<exists>e. rank_stores geodesic user_lat user_lon stores limit = Inl e"
    if "\<exists>s\<in>set stores. \<exists>e. geodesic (user_lat, user_lon) (latitude s, longitude s) = Inl e"
  proof (rule ccontr)
    assume "\<not> ?thesis"
    then obtain rs where "rank_stores geodesic user_lat user_lon stores limit = Inr rs"
      by (cases "rank_stores geodesic user_lat user_lon stores limit") auto
    then obtain ds where ds: "add_distances geodesic user_lat user_lon stores = Inr ds"
      by (auto simp: rank_stores_def split: sum.splits)
    from that obtain s e where s: "s \<in> set stores"
      "geodesic (user_lat, user_lon) (latitude s, longitude s) = Inl e" by blast
    from s(1) add_distances_truncate [OF ds] obtain r where "r \<in> set ds" "store.truncate r = s"
      by (metis (no_types, lifting) imageE list.set_map)
    with add_distances_km [OF ds, of r] s(2) show False
      by (auto simp: store.truncate_def)
  qed
  have c: "calculate_distance geodesic lat1 lon1 lat2 lon2 = geodesic (lat1, lon1) (lat2, lon2)"
    by (simp add: calculate_distance_def)
  from a b c show ?thesis by blast
qed

text \<open>Witness for C7: the latitude 95, which the sample library rejects.\<close>

theorem ranking_raises_only_with_the_library_witness:
  "rank_stores sample_geodesic 95 73 sample_stores 5 = Inl ValueError
   \<and> (\<exists>s\<in>set sample_stores. sample_geodesic (95, 73) (latitude s, longitude s) = Inl ValueError)"
proof -
  have "rank_stores sample_geodesic 95 73 sample_stores 5 = Inl ValueError"
    by (simp add: rank_stores_def sample_stores_def calculate_distance_def sample_geodesic_def
        geopy_point_def py_bind_def)
  with ranking_raises_only_with_the_library [of sample_geodesic _ _ _ _ 95 73 sample_stores 5]
  show ?thesis by blast
qed

text \<open>
  Claim C10. Whatever the agent answers, the catalog is the same two stores with ids 1 and
  2, so \<^verbatim>\<open>find_nearest_stores\<close> is the ranking of that list: a function of the origin and
  the limit, the same for any two answers of the agent.
\<close>

theorem catalog_is_fixed:
  assumes "ask_db stores_question = Inr response"
    and "ask_db' stores_question = Inr response'"
  shows "get_stores_with_location ask_db = Inr sample_stores
       \<and> map store_id sample_stores = [1, 2]
       \<and> get_stores_with_location ask_db' = get_stores_with_location ask_db
       \<and> find_nearest_stores ask_db geodesic user_lat user_lon limit
           = rank_stores geodesic user_lat user_lon sample_stores
               (case limit of None \<Rightarrow> 5 | Some k \<Rightarrow> k)
       \<and> find_nearest_stores ask_db' geodesic user_lat user_lon limit
           = find_nearest_stores ask_db geodesic user_lat user_lon limit"
  using assms
  by (simp add: get_stores_with_location_def find_nearest_stores_def sample_ids)

text \<open>Witness for C10: two agents with different answers.\<close>

theorem catalog_is_fixed_witness:
  "sample_agent stores_question = Inr ''[(1, 'MedPlus'), (2, 'MedPlus')]''
   \<and> (\<lambda>q. Inr ''no rows'') stores_question = (Inr ''no rows'' :: string result)
   \<and> get_stores_with_location sample_agent = Inr sample_stores
   \<and> find_nearest_stores (\<lambda>q. Inr ''no rows'') sample_geodesic 18.5581 73.7934 (Some 1)
       = find_nearest_stores sample_agent sample_geodesic 18.5581 73.7934 (Some 1)"
proof -
  have a: "sample_agent stores_question = Inr ''[(1, 'MedPlus'), (2, 'MedPlus')]''"
    by (simp add: sample_agent_def)
  have b: "(\<lambda>q. Inr ''no rows'') stores_question = (Inr ''no rows'' :: string result)"
    by simp
  from catalog_is_fixed [where ask_db = sample_agent and ask_db' = "\<lambda>q. Inr ''no rows''"
      and geodesic = sample_geodesic and user_lat = "18.5581" and user_lon = "73.7934"
      and limit = "Some 1", OF a b] a
  show ?thesis by simp
qed

section \<open>The routing client never raises\<close>

text \<open>
  Claim C2. For every input, \<^verbatim>\<open>get_route_info\<close> returns a value and raises nothing; when
  the request raises (network error, timeout), when the body is not JSON, and when the
  decoded object has no \<^verbatim>\<open>"routes"\<close> entry or an empty one, the value returned is the one
  with \<^verbatim>\<open>success\<close> false.
\<close>

theorem get_route_info_fail_soft:
  "(\<exists>r. fst (get_route_info requests_get polyline_decode fmt sent user_lat user_lon
               store_lat store_lon mode) = Inr r)
   \<and> (\<forall>e. requests_get sent
             (route_request fmt (case mode of None \<Rightarrow> ''driving'' | Some m \<Rightarrow> m)
                user_lat user_lon store_lat store_lon) = Inl e
        \<longrightarrow> fst (get_route_info requests_get polyline_decode fmt sent user_lat user_lon
                   store_lat store_lon mode) = Inr NoRoute)
   \<and> (\<forall>e. requests_get sent
             (route_request fmt (case mode of None \<Rightarrow> ''driving'' | Some m \<Rightarrow> m)
                user_lat user_lon store_lat store_lon) = Inr (Response (Inl e))
        \<longrightarrow> fst (get_route_info requests_get polyline_decode fmt sent user_lat user_lon
                   store_lat store_lon mode) = Inr NoRoute)
   \<and> (\<forall>items. requests_get sent
             (route_request fmt (case mode of None \<Rightarrow> ''driving'' | Some m \<Rightarrow> m)
                user_lat user_lon store_lat store_lon) = Inr (Response (Inr (PDict items)))
           \<and> (map_of items ''routes'' = None \<or> map_of items ''routes'' = Some (PList []))
        \<longrightarrow> fst (get_route_info requests_get polyline_decode fmt sent user_lat user_lon
                   store_lat store_lon mode) = Inr NoRoute)"
proof -
  have a: "\<exists>r. fst (get_route_info requests_get polyline_decode fmt sent user_lat user_lon
               store_lat store_lon mode) = Inr r"
    using get_route_info_eq [of requests_get polyline_decode fmt sent user_lat user_lon
        store_lat store_lon mode] by auto
  show ?thesis
    using a
    by (auto simp: get_route_info_def route_try_def route_of_data_def Let_def py_bind_def
        split: option.splits)
qed

text \<open>Witness for C2: a timeout, a body that is not JSON, an empty list of routes.\<close>

theorem get_route_info_fail_soft_witness:
  "fst (get_route_info timeout_network sample_decode sample_fmt [] 18.5581 73.7934
          18.551666 73.768846 None) = Inr NoRoute
   \<and> fst (get_route_info malformed_network sample_decode sample_fmt [] 18.5581 73.7934
          18.551666 73.768846 None) = Inr NoRoute
   \<and> fst (get_route_info no_route_network sample_decode sample_fmt [] 18.5581 73.7934
          18.551666 73.768846 None) = Inr NoRoute"
  using get_route_info_fail_soft [of timeout_network sample_decode sample_fmt "[]"
      "18.5581" "73.7934" "18.551666" "73.768846" None]
    get_route_info_fail_soft [of malformed_network sample_decode sample_fmt "[]"
      "18.5581" "73.7934" "18.551666" "73.768846" None]
    get_route_info_fail_soft [of no_route_network sample_decode sample_fmt "[]"
      "18.5581" "73.7934" "18.551666" "73.768846" None]
  by (simp add: timeout_network_def malformed_network_def no_route_network_def)

section \<open>The route of a well-formed response\<close>




section \<open>The routing request\<close>

text \<open>
  Claim C8. \<^verbatim>\<open>get_route_info\<close> sends exactly one request, a GET, whose URL names the mode
  (\<^verbatim>\<open>driving\<close> when none is given), then the origin as longitude,latitude, then the
  destination as longitude,latitude, and ends with \<^verbatim>\<open>overview=full\<close>.
\<close>

theorem get_route_info_request:
  "snd (get_route_info requests_get polyline_decode fmt sent user_lat user_lon
          store_lat store_lon mode)
     = sent @ [\<lparr>http_method = ''GET'',
                url = ''http://router.project-osrm.org/route/v1/''
                        @ (case mode of None \<Rightarrow> ''driving'' | Some m \<Rightarrow> m) @ ''/''
                        @ fmt user_lon @ '','' @ fmt user_lat @ '';''
                        @ fmt store_lon @ '','' @ fmt store_lat @ ''?overview=full'',
                timeout = 10\<rparr>]"
  using get_route_info_eq [of requests_get polyline_decode fmt sent user_lat user_lon
        store_lat store_lon mode]
  by (auto simp: route_request_def osrm_url_def)

text \<open>Witness for C8: the request for the first catalog store from (18.5581, 73.7934).\<close>

theorem get_route_info_request_witness:
  "snd (get_route_info synthetic_network sample_decode sample_fmt [] 18.5581 73.7934
          18.551666 73.768846 None)
     = [\<lparr>http_method = ''GET'',
         url = ''http://router.project-osrm.org/route/v1/driving/73.7934,18.5581;73.768846,18.551666?overview=full'',
         timeout = 10\<rparr>]"
  using get_route_info_request [of synthetic_network sample_decode sample_fmt "[]"
      "18.5581" "73.7934" "18.551666" "73.768846" None]
  by (simp add: sample_fmt_def)

section \<open>Route annotation of a ranked list\<close>




section \<open>Symmetry of the distance\<close>

text \<open>
  Claim C9. With the great-circle distance of the specification as the distance library,
  \<^verbatim>\<open>calculate_distance\<close> returns a distance for every pair of valid coordinates, the same
  distance for the pair in either order, and 0 from a coordinate to itself.
\<close>

theorem great_circle_symmetric_zero:
  assumes "valid_coordinate (lat1, lon1)" and "valid_coordinate (lat2, lon2)"
  shows "calculate_distance great_circle lat1 lon1 lat2 lon2
           = calculate_distance great_circle lat2 lon2 lat1 lon1
       \<and> (\<exists>d. calculate_distance great_circle lat1 lon1 lat2 lon2 = Inr d)
       \<and> calculate_distance great_circle lat1 lon1 lat1 lon1 = Inr 0"
  using assms
  by (simp add: calculate_distance_def great_circle_def haversine_zero
      haversine_sym [of "(lat1, lon1)" "(lat2, lon2)"])

text \<open>Witness for C9: the default origin and the first catalog store.\<close>

theorem great_circle_symmetric_zero_witness:
  "valid_coordinate (18.5581, 73.7934) \<and> valid_coordinate (18.551666, 73.768846)
   \<and> calculate_distance great_circle 18.5581 73.7934 18.551666 73.768846
       = calculate_distance great_circle 18.551666 73.768846 18.5581 73.7934
   \<and> calculate_distance great_circle 18.5581 73.7934 18.5581 73.7934 = Inr 0"
proof -
  have a: "valid_coordinate (18.5581, 73.7934)" by (simp add: valid_coordinate_def)
  have b: "valid_coordinate (18.551666, 73.768846)" by (simp add: valid_coordinate_def)
  from great_circle_symmetric_zero [OF a b] a b show ?thesis by simp
qed

end
